theory Spec2Isabelle
  imports Complex_Main "HOL-Library.AList"
begin

section \<open>Values, messages and the broker\<close>

text \<open>
  The JARVIS orchestrator (\<^verbatim>\<open>orchestrator/orchestrator.py\<close>) and the agent base class
  (\<^verbatim>\<open>agents/base/base_agent.py\<close>) talk to a RabbitMQ broker through \<^verbatim>\<open>aio_pika\<close> and
  exchange JSON dictionaries. The embedding keeps the Python control flow of each
  method, threads the object state explicitly and records what reaches the broker.

  Instants are points on the wall clock in seconds. \<^verbatim>\<open>datetime\<close> differences are exact
  (integer microseconds), so the comparison \<^verbatim>\<open>silence_time > 300\<close> is the comparison of
  the exact difference with 300; instants are therefore reals. Every call of
  \<^verbatim>\<open>datetime.now()\<close> inside one method run is given the same reading \<open>now\<close>, which is
  passed in by the caller of the model.
\<close>

type_synonym instant = real

text \<open>
  Values that the code places in outgoing payloads. \<open>PTimeStr fmt t\<close> is the \<^verbatim>\<open>str\<close> that
  \<^verbatim>\<open>isoformat()\<close> or \<^verbatim>\<open>strftime(fmt)\<close> produces for the instant \<open>t\<close>; its characters are not
  computed, and the code only places such strings in payloads and results: it never
  compares them. \<open>PDatetime t\<close> is a \<^verbatim>\<open>datetime\<close> object.
\<close>

datatype pyval =
    PNone
  | PBool bool
  | PInt int
  | PFloat real
  | PStr string
  | PTimeStr string instant
  | PDatetime instant
  | PList "pyval list"
  | PDict "(string \<times> pyval) list"

text \<open>Values that \<^verbatim>\<open>json.loads\<close> can return for a received body.\<close>

datatype json =
    JNull
  | JBool bool
  | JInt int
  | JFloat real
  | JStr string
  | JArr "json list"
  | JObj "(string \<times> json) list"

datatype exn =
    UnicodeDecodeError
  | JSONDecodeError
  | AttributeError
  | TypeError
  | RuntimeError
  | ConnectionError
  | ChannelInvalidStateError
  | AMQPError

text \<open>
  A received \<^verbatim>\<open>message.body\<close>, classified by what \<^verbatim>\<open>json.loads(message.body.decode())\<close>
  does with it: the bytes are not UTF-8, the text is not JSON, or the text is JSON for
  the given value. The \<^verbatim>\<open>json\<close> module itself is library code and is not embedded.
\<close>

datatype body = NotUtf8 | NotJson | Json json

fun loads_decode :: "body \<Rightarrow> exn + json" where
  "loads_decode NotUtf8 = Inl UnicodeDecodeError"
| "loads_decode NotJson = Inl JSONDecodeError"
| "loads_decode (Json v) = Inr v"

text \<open>\<^verbatim>\<open>d.get(key, default)\<close>: only a \<^verbatim>\<open>dict\<close> has the method.\<close>

fun json_get :: "json \<Rightarrow> string \<Rightarrow> json \<Rightarrow> exn + json" where
  "json_get (JObj kvs) k dflt = Inr (case map_of kvs k of None \<Rightarrow> dflt | Some v \<Rightarrow> v)"
| "json_get _ k dflt = Inl AttributeError"

fun py_get :: "pyval \<Rightarrow> string \<Rightarrow> pyval \<Rightarrow> exn + pyval" where
  "py_get (PDict kvs) k dflt = Inr (case map_of kvs k of None \<Rightarrow> dflt | Some v \<Rightarrow> v)"
| "py_get _ k dflt = Inl AttributeError"

text \<open>
  \<^verbatim>\<open>json.dumps\<close> raises \<^verbatim>\<open>TypeError\<close> on a \<^verbatim>\<open>datetime\<close> anywhere in the value; every other
  \<^typ>\<open>pyval\<close> is serialisable.
\<close>

fun serialisable :: "pyval \<Rightarrow> bool" where
  "serialisable (PDatetime t) = False"
| "serialisable (PList xs) = list_all id (map serialisable xs)"
| "serialisable (PDict kvs) = list_all id (map (\<lambda>kv. serialisable (snd kv)) kvs)"
| "serialisable _ = True"

subsection \<open>Envelopes\<close>

text \<open>
  The dictionary literal that \<^verbatim>\<open>publish_message\<close> and \<^verbatim>\<open>_publish_system_event\<close> build
  (keys \<^verbatim>\<open>event_type\<close>, \<^verbatim>\<open>agent_source\<close>, \<^verbatim>\<open>timestamp\<close>, \<^verbatim>\<open>data\<close>) and the one that
  \<^verbatim>\<open>_send_task_to_agent\<close> builds (keys \<^verbatim>\<open>type\<close>, \<^verbatim>\<open>from\<close>, \<^verbatim>\<open>to\<close>, \<^verbatim>\<open>timestamp\<close>, \<^verbatim>\<open>task\<close>).
  The timestamp field holds the instant whose \<^verbatim>\<open>isoformat()\<close> string is sent.
\<close>

record event =
  event_type :: string
  agent_source :: string
  timestamp :: instant
  data :: pyval

record direct_message =
  msg_type :: string
  msg_from :: string
  msg_to :: string
  msg_timestamp :: instant
  task :: pyval

subsection \<open>The connection state shared by agents and orchestrator\<close>

datatype conn = ConnOpen | ConnClosed

datatype level = DEBUG | INFO | WARNING | ERROR

text \<open>
  Both classes hold \<^verbatim>\<open>connection\<close>, \<^verbatim>\<open>channel\<close> and \<^verbatim>\<open>exchange\<close> attributes (\<^verbatim>\<open>None\<close> until
  connected) and a logger. The broker's side of the connection is kept in the same
  record: \<open>fanout\<close> lists the events the exchange \<^verbatim>\<open>jarvis.events\<close> accepted, \<open>direct\<close> the
  messages the default exchange accepted with their routing keys, \<open>closes\<close> counts the
  \<^verbatim>\<open>connection.close()\<close> calls. A publish call on a connection that is not open raises
  the \<^verbatim>\<open>ChannelInvalidStateError\<close> of \<^verbatim>\<open>aio_pika\<close>; on an open connection it raises when
  the environment makes it fail: \<open>faults\<close> holds the ordinals of the publish calls that
  fail, \<open>publish_calls\<close> counts the calls made so far.

  A log line is kept as its level and its fixed text followed by the agent name where
  the line interpolates one; emoji and interpolated exception texts are left out.
\<close>

record endpoint =
  connection :: "conn option"
  channel :: bool
  exchange :: bool
  logged :: "(level \<times> string) list"
  fanout :: "event list"
  direct :: "(string \<times> direct_message) list"
  closes :: nat
  publish_calls :: nat
  faults :: "nat set"

definition log_line :: "level \<Rightarrow> string \<Rightarrow> 'a endpoint_scheme \<Rightarrow> 'a endpoint_scheme" where
  "log_line lv txt st = st\<lparr>logged := logged st @ [(lv, txt)]\<rparr>"

text \<open>One publish call on the broker: the outcome and the advanced call counter.\<close>

definition broker_call :: "'a endpoint_scheme \<Rightarrow> exn option \<times> 'a endpoint_scheme" where
  "broker_call st =
     (let st1 = st\<lparr>publish_calls := Suc (publish_calls st)\<rparr>
      in if connection st \<noteq> Some ConnOpen then (Some ChannelInvalidStateError, st1)
         else if publish_calls st \<in> faults st then (Some AMQPError, st1)
         else (None, st1))"

text \<open>\<^verbatim>\<open>self.exchange.publish(Message(json.dumps(message_data).encode()), routing_key='')\<close>\<close>

definition exchange_publish :: "event \<Rightarrow> 'a endpoint_scheme \<Rightarrow> exn option \<times> 'a endpoint_scheme" where
  "exchange_publish ev st =
     (if \<not> serialisable (data ev) then (Some TypeError, st)
      else case broker_call st of
             (Some e, st1) \<Rightarrow> (Some e, st1)
           | (None, st1) \<Rightarrow> (None, st1\<lparr>fanout := fanout st1 @ [ev]\<rparr>))"

text \<open>\<^verbatim>\<open>self.channel.default_exchange.publish(message, routing_key=f"{agent_name}.queue")\<close>\<close>

definition default_exchange_publish ::
  "string \<Rightarrow> direct_message \<Rightarrow> 'a endpoint_scheme \<Rightarrow> exn option \<times> 'a endpoint_scheme" where
  "default_exchange_publish routing_key m st =
     (if \<not> serialisable (task m) then (Some TypeError, st)
      else case broker_call st of
             (Some e, st1) \<Rightarrow> (Some e, st1)
           | (None, st1) \<Rightarrow> (None, st1\<lparr>direct := direct st1 @ [(routing_key, m)]\<rparr>))"

section \<open>The orchestrator\<close>

text \<open>One entry of \<^verbatim>\<open>self.agents\<close>; the status is the string the code stores.\<close>

record agent_info =
  status :: string
  last_seen :: "instant option"
  messages_received :: int
  errors :: int

text \<open>
  \<^verbatim>\<open>self.agents\<close> is a \<^verbatim>\<open>dict\<close>; it is kept as an association list in insertion order,
  which is the order \<^verbatim>\<open>items()\<close> iterates in.
\<close>

record orchestrator = endpoint +
  agents :: "(string \<times> agent_info) list"
  system_status :: string
  start_time :: instant
  management_queue :: bool
  consuming :: bool
  shutdown_requested :: bool
  expected_agents :: "string list"

definition publish_system_event :: "instant \<Rightarrow> string \<Rightarrow> pyval \<Rightarrow> orchestrator \<Rightarrow> orchestrator" where
  "publish_system_event now ev_type payload st =
     (if \<not> exchange st then st
      else case exchange_publish
                  \<lparr>event_type = ev_type, agent_source = ''orchestrator'',
                   timestamp = now, data = payload\<rparr> st of
             (Some e, st1) \<Rightarrow> log_line ERROR ''Erro ao publicar evento'' st1
           | (None, st1) \<Rightarrow> st1)"

text \<open>The body of the loop of \<^verbatim>\<open>_check_agent_health\<close> for one item of \<^verbatim>\<open>self.agents\<close>.\<close>

definition check_agent ::
  "instant \<Rightarrow> string \<Rightarrow> agent_info \<Rightarrow> orchestrator \<Rightarrow> agent_info \<times> orchestrator" where
  "check_agent current_time agent_name info st =
     (case last_seen info of
        None \<Rightarrow>
          if status info \<noteq> ''expected''
          then (info\<lparr>status := ''expected''\<rparr>,
                log_line WARNING (''Aguardando agente '' @ agent_name) st)
          else (info, st)
      | Some seen \<Rightarrow>
          let silence_time = current_time - seen
          in if silence_time > 300
             then if status info \<noteq> ''unresponsive''
                  then (info\<lparr>status := ''unresponsive''\<rparr>,
                        publish_system_event current_time ''agent.unresponsive''
                          (PDict [(''agent_name'', PStr agent_name),
                                  (''silence_duration'', PFloat silence_time)])
                          (log_line WARNING (''Agente nao responde: '' @ agent_name) st))
                  else (info, st)
             else (info, st))"

fun health_loop ::
  "instant \<Rightarrow> (string \<times> agent_info) list \<Rightarrow> orchestrator
     \<Rightarrow> (string \<times> agent_info) list \<times> orchestrator" where
  "health_loop current_time [] st = ([], st)"
| "health_loop current_time ((agent_name, info) # rest) st =
     (let (info', st1) = check_agent current_time agent_name info st;
          (rest', st2) = health_loop current_time rest st1
      in ((agent_name, info') # rest', st2))"

definition check_agent_health :: "instant \<Rightarrow> orchestrator \<Rightarrow> orchestrator" where
  "check_agent_health current_time st =
     (let (items, st1) = health_loop current_time (agents st) st
      in st1\<lparr>agents := items\<rparr>)"

subsection \<open>Start-up\<close>

text \<open>\<^verbatim>\<open>JarvisOrchestrator.__init__\<close>, at the instant \<open>now\<close>, with no broker fault scheduled.\<close>

definition init :: "instant \<Rightarrow> orchestrator" where
  "init now =
     \<lparr>connection = None, channel = False, exchange = False,
      logged = [(INFO, ''Orquestrador JARVIS inicializado'')],
      fanout = [], direct = [], closes = 0, publish_calls = 0, faults = {},
      agents = [], system_status = ''starting'', start_time = now,
      management_queue = False, consuming = False, shutdown_requested = False,
      expected_agents = [''photo-agent'', ''marketing-agent'', ''social-media-agent'',
                         ''crm-agent'', ''calendar-agent'', ''finance-agent'', ''task-agent'']\<rparr>"

text \<open>
  \<^verbatim>\<open>_connect_to_rabbitmq\<close> awaits five broker operations in a row (connect, channel,
  declare exchange, declare queue, bind) and assigns an attribute after each of the
  first four. \<open>ok\<close> is the number of operations the broker lets succeed; the first one
  that fails raises, which the method logs and re-raises.
\<close>

definition connect_to_rabbitmq :: "nat \<Rightarrow> orchestrator \<Rightarrow> exn option \<times> orchestrator" where
  "connect_to_rabbitmq ok st =
     (let st0 = log_line INFO ''Conectando ao RabbitMQ...'' st;
          st1 = (if 1 \<le> ok then st0\<lparr>connection := Some ConnOpen\<rparr> else st0);
          st2 = (if 2 \<le> ok then st1\<lparr>channel := True\<rparr> else st1);
          st3 = (if 3 \<le> ok then st2\<lparr>exchange := True\<rparr> else st2);
          st4 = (if 4 \<le> ok then st3\<lparr>management_queue := True\<rparr> else st3)
      in if 5 \<le> ok then (None, log_line INFO ''Conectado ao RabbitMQ'' st4)
         else (Some AMQPError, log_line ERROR ''Erro ao conectar com RabbitMQ'' st4))"

text \<open>The loop of \<^verbatim>\<open>_start_agent_monitoring\<close>: \<^verbatim>\<open>self.agents[agent_name] = {...}\<close>.\<close>

fun init_agents :: "string list \<Rightarrow> (string \<times> agent_info) list \<Rightarrow> (string \<times> agent_info) list" where
  "init_agents [] ags = ags"
| "init_agents (agent_name # rest) ags =
     init_agents rest
       (AList.update agent_name
          \<lparr>status = ''expected'', last_seen = None, messages_received = 0, errors = 0\<rparr> ags)"

text \<open>
  \<^verbatim>\<open>_start_agent_monitoring\<close>: \<^verbatim>\<open>self.management_queue.consume(...)\<close> raises
  \<^verbatim>\<open>AttributeError\<close> when the queue is still \<^verbatim>\<open>None\<close>.
\<close>

definition start_agent_monitoring :: "orchestrator \<Rightarrow> exn option \<times> orchestrator" where
  "start_agent_monitoring st =
     (let st0 = log_line INFO ''Iniciando monitoramento de agentes...'' st
      in if \<not> management_queue st0 then (Some AttributeError, st0)
         else (None, st0\<lparr>consuming := True,
                          agents := init_agents (expected_agents st0) (agents st0)\<rparr>))"

text \<open>\<^verbatim>\<open>start\<close>, up to the call of the main loop.\<close>

definition start :: "instant \<Rightarrow> nat \<Rightarrow> orchestrator \<Rightarrow> exn option \<times> orchestrator" where
  "start now ok st =
     (let st0 = log_line INFO ''Iniciando sistema JARVIS...'' st;
          failed = (\<lambda>e s. (Some e, (log_line ERROR ''Erro ao iniciar sistema'' s)
                                      \<lparr>system_status := ''error''\<rparr>))
      in case connect_to_rabbitmq ok st0 of
           (Some e, st1) \<Rightarrow> failed e st1
         | (None, st1) \<Rightarrow>
             (case start_agent_monitoring st1 of
                (Some e, st2) \<Rightarrow> failed e st2
              | (None, st2) \<Rightarrow>
                  (None,
                   publish_system_event now ''system.started''
                     (PDict [(''start_time'', PTimeStr ''isoformat'' (start_time st2)),
                             (''expected_agents'', PList (map PStr (expected_agents st2)))])
                     (log_line INFO ''Sistema JARVIS iniciado com sucesso''
                        (st2\<lparr>system_status := ''running''\<rparr>)))))"

subsection \<open>Consuming agent events\<close>

text \<open>
  \<^verbatim>\<open>async with message.process()\<close> acknowledges the message when its block ends
  normally and rejects it when an exception leaves the block.
\<close>

datatype disposition = Ack | Reject

definition process :: "exn option \<times> 's \<Rightarrow> disposition \<times> exn option \<times> 's" where
  "process r = (case fst r of None \<Rightarrow> (Ack, None, snd r) | Some e \<Rightarrow> (Reject, Some e, snd r))"

text \<open>
  \<^verbatim>\<open>agent_source in self.agents\<close> hashes the value: a list or a dict raises
  \<^verbatim>\<open>TypeError\<close>; of the hashable values only a string can be one of the keys.
\<close>

fun dict_key :: "json \<Rightarrow> exn + string option" where
  "dict_key (JArr xs) = Inl TypeError"
| "dict_key (JObj kvs) = Inl TypeError"
| "dict_key (JStr s) = Inr (Some s)"
| "dict_key _ = Inr None"

text \<open>Lines 181 to 190 of the handler, for a source that is a key of \<^verbatim>\<open>self.agents\<close>.\<close>

definition update_agent :: "instant \<Rightarrow> string \<Rightarrow> json \<Rightarrow> orchestrator \<Rightarrow> orchestrator" where
  "update_agent now src ev st =
     (let st1 = st\<lparr>agents := AList.map_entry src (\<lambda>r. r\<lparr>last_seen := Some now\<rparr>) (agents st)\<rparr>;
          st2 = st1\<lparr>agents := AList.map_entry src
                   (\<lambda>r. r\<lparr>messages_received := messages_received r + 1\<rparr>) (agents st1)\<rparr>
      in if ev = JStr ''agent.started''
         then log_line INFO (''Agente conectado: '' @ src)
                (st2\<lparr>agents := AList.map_entry src (\<lambda>r. r\<lparr>status := ''online''\<rparr>) (agents st2)\<rparr>)
         else if ev = JStr ''agent.stopped''
         then log_line INFO (''Agente desconectado: '' @ src)
                (st2\<lparr>agents := AList.map_entry src (\<lambda>r. r\<lparr>status := ''offline''\<rparr>) (agents st2)\<rparr>)
         else st2)"

text \<open>The \<^verbatim>\<open>try\<close> block of \<^verbatim>\<open>_handle_agent_message\<close>: the exception it raises, if any.\<close>

definition agent_message_try :: "instant \<Rightarrow> body \<Rightarrow> orchestrator \<Rightarrow> exn option \<times> orchestrator" where
  "agent_message_try now b st =
     (case loads_decode b of
        Inl e \<Rightarrow> (Some e, st)
      | Inr message_data \<Rightarrow>
     (case json_get message_data ''event_type'' (JStr '''') of
        Inl e \<Rightarrow> (Some e, st)
      | Inr ev \<Rightarrow>
     (case json_get message_data ''agent_source'' (JStr '''') of
        Inl e \<Rightarrow> (Some e, st)
      | Inr src \<Rightarrow>
     (case dict_key src of
        Inl e \<Rightarrow> (Some e, st)
      | Inr key \<Rightarrow>
          let st1 = (case key of
                       None \<Rightarrow> st
                     | Some a \<Rightarrow> if map_of (agents st) a \<noteq> None
                                 then update_agent now a ev st else st)
          in (None,
              if ev \<in> set [JStr ''agent.started'', JStr ''agent.stopped'', JStr ''system.error'']
              then log_line INFO ''Evento recebido'' st1 else st1)))))"

definition handle_agent_message ::
  "instant \<Rightarrow> body \<Rightarrow> orchestrator \<Rightarrow> disposition \<times> exn option \<times> orchestrator" where
  "handle_agent_message now b st =
     process (case agent_message_try now b st of
                (Some e, st1) \<Rightarrow> (None, log_line ERROR ''Erro ao processar mensagem'' st1)
              | (None, st1) \<Rightarrow> (None, st1))"

subsection \<open>Statistics\<close>

definition agent_info_py :: "agent_info \<Rightarrow> pyval" where
  "agent_info_py r =
     PDict [(''status'', PStr (status r)),
            (''last_seen'', case last_seen r of None \<Rightarrow> PNone | Some t \<Rightarrow> PDatetime t),
            (''messages_received'', PInt (messages_received r)),
            (''errors'', PInt (errors r))]"

text \<open>
  \<^verbatim>\<open>_publish_system_stats\<close>. Building the dictionary cannot raise, so the method's own
  \<^verbatim>\<open>except\<close> is never entered; \<^verbatim>\<open>_publish_system_event\<close> handles what \<^verbatim>\<open>json.dumps\<close>
  and the broker raise.
\<close>

definition publish_system_stats :: "instant \<Rightarrow> orchestrator \<Rightarrow> orchestrator" where
  "publish_system_stats now st =
     publish_system_event now ''system.stats''
       (PDict [(''system_status'', PStr (system_status st)),
               (''uptime_seconds'', PFloat (now - start_time st)),
               (''agents'', PDict (map (\<lambda>kv. (fst kv, agent_info_py (snd kv))) (agents st))),
               (''agents_online'',
                  PInt (int (length (filter (\<lambda>kv. status (snd kv) = ''online'') (agents st))))),
               (''agents_expected'', PInt (int (length (expected_agents st)))),
               (''timestamp'', PTimeStr ''isoformat'' now)])
       st"

subsection \<open>Dispatching workflows\<close>

text \<open>
  \<^verbatim>\<open>_send_task_to_agent\<close>. Everything after the channel test is inside the \<^verbatim>\<open>try\<close>;
  whatever is raised there is logged with the agent's name and not raised again. The
  final debug line evaluates \<^verbatim>\<open>task_data.get('type', 'unknown')\<close>.
\<close>

definition send_task_to_agent :: "instant \<Rightarrow> string \<Rightarrow> pyval \<Rightarrow> orchestrator \<Rightarrow> orchestrator" where
  "send_task_to_agent now agent_name task_data st =
     (if \<not> channel st then st
      else case default_exchange_publish (agent_name @ ''.queue'')
                  \<lparr>msg_type = ''task_request'', msg_from = ''orchestrator'',
                   msg_to = agent_name, msg_timestamp = now, task = task_data\<rparr> st of
             (Some e, st1) \<Rightarrow> log_line ERROR (''Erro ao enviar tarefa para '' @ agent_name) st1
           | (None, st1) \<Rightarrow>
               (case py_get task_data ''type'' (PStr ''unknown'') of
                  Inl e \<Rightarrow> log_line ERROR (''Erro ao enviar tarefa para '' @ agent_name) st1
                | Inr t \<Rightarrow> log_line DEBUG (''Tarefa enviada para '' @ agent_name) st1))"

text \<open>
  The three workflows. Each returns the exception that leaves it, or its result
  dictionary. \<^verbatim>\<open>client_data.get('name', '')\<close> is evaluated after the first send.
\<close>

definition execute_photo_workflow ::
  "instant \<Rightarrow> pyval \<Rightarrow> orchestrator \<Rightarrow> (exn + pyval) \<times> orchestrator" where
  "execute_photo_workflow now task_data st =
     (let workflow_id = PTimeStr ''workflow_%Y%m%d_%H%M%S'' now
      in case py_get task_data ''photo_path'' (PStr ''/app/photos'') of
           Inl e \<Rightarrow> (Inl e, st)
         | Inr path \<Rightarrow>
             let st1 = send_task_to_agent now ''photo-agent''
                         (PDict [(''type'', PStr ''organize_photos''), (''path'', path),
                                 (''workflow_id'', workflow_id)]) st;
                 st2 = send_task_to_agent now ''marketing-agent''
                         (PDict [(''type'', PStr ''suggest_content''),
                                 (''context'', PDict [(''photos_processed'', PBool True)]),
                                 (''workflow_id'', workflow_id)]) st1;
                 st3 = send_task_to_agent now ''social-media-agent''
                         (PDict [(''type'', PStr ''schedule_posts''),
                                 (''workflow_id'', workflow_id)]) st2
             in (Inr (PDict [(''status'', PStr ''initiated''), (''workflow_id'', workflow_id),
                             (''message'', PStr ''Workflow de fotos iniciado'')]), st3))"

definition execute_marketing_campaign ::
  "instant \<Rightarrow> pyval \<Rightarrow> orchestrator \<Rightarrow> (exn + pyval) \<times> orchestrator" where
  "execute_marketing_campaign now task_data st =
     (case py_get task_data ''campaign_data'' (PDict []) of
        Inl e \<Rightarrow> (Inl e, st)
      | Inr campaign_data \<Rightarrow>
          let st1 = send_task_to_agent now ''marketing-agent''
                      (PDict [(''type'', PStr ''create_campaign''),
                              (''campaign_data'', campaign_data)]) st;
              st2 = send_task_to_agent now ''social-media-agent''
                      (PDict [(''type'', PStr ''prepare_campaign_posts''),
                              (''campaign_data'', campaign_data)]) st1;
              st3 = send_task_to_agent now ''crm-agent''
                      (PDict [(''type'', PStr ''segment_audience''),
                              (''campaign_data'', campaign_data)]) st2
          in (Inr (PDict [(''status'', PStr ''initiated''),
                          (''message'', PStr ''Campanha de marketing iniciada'')]), st3))"

definition execute_client_onboarding ::
  "instant \<Rightarrow> pyval \<Rightarrow> orchestrator \<Rightarrow> (exn + pyval) \<times> orchestrator" where
  "execute_client_onboarding now task_data st =
     (case py_get task_data ''client_data'' (PDict []) of
        Inl e \<Rightarrow> (Inl e, st)
      | Inr client_data \<Rightarrow>
          (let st1 = send_task_to_agent now ''crm-agent''
                      (PDict [(''type'', PStr ''register_client''),
                              (''client_data'', client_data)]) st
           in (case py_get client_data ''name'' (PStr '''') of
                 Inl e \<Rightarrow> (Inl e, st1)
               | Inr name \<Rightarrow>
                   (let st2 = send_task_to_agent now ''photo-agent''
                                (PDict [(''type'', PStr ''create_client_folder''),
                                        (''client_name'', name)]) st1;
                        st3 = send_task_to_agent now ''calendar-agent''
                                (PDict [(''type'', PStr ''schedule_consultation''),
                                        (''client_data'', client_data)]) st2
                    in (Inr (PDict [(''status'', PStr ''initiated''),
                                    (''message'', PStr ''Onboarding de cliente iniciado'')]),
                        st3)))))"

text \<open>
  \<^verbatim>\<open>execute_distributed_task\<close>: an exception that leaves a workflow is logged and turned
  into an error result whose message is \<^verbatim>\<open>str(e)\<close>, kept here as the class name. The
  message of an unknown task type interpolates the type, which is left out.
\<close>

fun exn_text :: "exn \<Rightarrow> string" where
  "exn_text UnicodeDecodeError = ''UnicodeDecodeError''"
| "exn_text JSONDecodeError = ''JSONDecodeError''"
| "exn_text AttributeError = ''AttributeError''"
| "exn_text TypeError = ''TypeError''"
| "exn_text RuntimeError = ''RuntimeError''"
| "exn_text ConnectionError = ''ConnectionError''"
| "exn_text ChannelInvalidStateError = ''ChannelInvalidStateError''"
| "exn_text AMQPError = ''AMQPError''"

definition execute_distributed_task ::
  "instant \<Rightarrow> pyval \<Rightarrow> orchestrator \<Rightarrow> pyval \<times> orchestrator" where
  "execute_distributed_task now task_data st =
     (let caught = (\<lambda>e s. (PDict [(''status'', PStr ''error''), (''message'', PStr (exn_text e))],
                           log_line ERROR ''Erro na tarefa distribuida'' s))
      in case py_get task_data ''type'' (PStr '''') of
           Inl e \<Rightarrow> caught e st
         | Inr task_type \<Rightarrow>
             let st0 = log_line INFO ''Executando tarefa distribuida'' st;
                 r = (if task_type = PStr ''complete_photo_workflow''
                      then execute_photo_workflow now task_data st0
                      else if task_type = PStr ''marketing_campaign_launch''
                      then execute_marketing_campaign now task_data st0
                      else if task_type = PStr ''client_onboarding''
                      then execute_client_onboarding now task_data st0
                      else (Inr (PDict [(''status'', PStr ''error''),
                                        (''message'', PStr ''Tipo de tarefa nao reconhecido'')]),
                            st0))
             in (case r of
                   (Inl e, st1) \<Rightarrow> caught e st1
                 | (Inr res, st1) \<Rightarrow> (res, st1)))"

subsection \<open>Runs of the orchestrator\<close>

text \<open>
  After start-up the event loop runs the registered handler for each delivered message,
  the two halves of a main-loop iteration (\<^verbatim>\<open>_check_agent_health\<close>, then
  \<^verbatim>\<open>_publish_system_stats\<close>) and dispatch requests, one at a time. A run is the list of
  these steps in the order they happen, each with the clock reading it sees. The
  suspension points inside a step are not modelled: a step runs to its end before the
  next one starts.
\<close>

datatype step =
    Deliver instant body
  | Sweep instant
  | Stats instant
  | Dispatch instant pyval

fun do_step :: "step \<Rightarrow> orchestrator \<Rightarrow> orchestrator" where
  "do_step (Deliver now b) st = snd (snd (handle_agent_message now b st))"
| "do_step (Sweep now) st = check_agent_health now st"
| "do_step (Stats now) st = publish_system_stats now st"
| "do_step (Dispatch now task_data) st = snd (execute_distributed_task now task_data st)"

fun run :: "step list \<Rightarrow> orchestrator \<Rightarrow> orchestrator" where
  "run [] st = st"
| "run (s # ss) st = run ss (do_step s st)"

text \<open>The record of an identity, and what the claims observe of it.\<close>

definition record_of :: "orchestrator \<Rightarrow> string \<Rightarrow> agent_info option" where
  "record_of st a = map_of (agents st) a"

text \<open>The \<^verbatim>\<open>agent.unresponsive\<close> events about the identity \<open>a\<close> among the events published.\<close>

definition is_alarm :: "string \<Rightarrow> event \<Rightarrow> bool" where
  "is_alarm a ev =
     (event_type ev = ''agent.unresponsive'' \<and>
      py_get (data ev) ''agent_name'' PNone = Inr (PStr a))"

definition alarms :: "string \<Rightarrow> orchestrator \<Rightarrow> event list" where
  "alarms a st = filter (is_alarm a) (fanout st)"

text \<open>A delivered body that is an \<^verbatim>\<open>agent.started\<close> event from the identity \<open>a\<close>.\<close>

definition is_started_from :: "string \<Rightarrow> step \<Rightarrow> bool" where
  "is_started_from a s =
     (case s of
        Deliver now (Json (JObj kvs)) \<Rightarrow>
          json_get (JObj kvs) ''event_type'' (JStr '''') = Inr (JStr ''agent.started'') \<and>
          json_get (JObj kvs) ''agent_source'' (JStr '''') = Inr (JStr a)
      | _ \<Rightarrow> False)"

section \<open>The agent base class\<close>

text \<open>
  What the runtime calls on the concrete agent: \<^verbatim>\<open>process_message\<close> and
  \<^verbatim>\<open>execute_task\<close>. The calls are recorded in the order they are made. No definition
  below records \<open>Execute_task\<close>: the repository calls \<^verbatim>\<open>execute_task\<close> from its examples
  and tests only, never on a consumed message.
\<close>

datatype call =
    Process_message json
  | Execute_task json

record agent = endpoint +
  agent_name :: string
  queue :: bool
  invoked :: "call list"

text \<open>\<^verbatim>\<open>BaseAgent.__init__\<close>.\<close>

definition agent_init :: "string \<Rightarrow> agent" where
  "agent_init name =
     \<lparr>connection = None, channel = False, exchange = False,
      logged = [(INFO, ''Agente inicializado: '' @ name)],
      fanout = [], direct = [], closes = 0, publish_calls = 0, faults = {},
      agent_name = name, queue = False, invoked = []\<rparr>"

text \<open>
  \<^verbatim>\<open>BaseAgent.connect_to_rabbitmq\<close>: the same five broker operations as the
  orchestrator's; a failure is logged and raised as \<^verbatim>\<open>ConnectionError\<close>.
\<close>

definition agent_connect_to_rabbitmq :: "nat \<Rightarrow> agent \<Rightarrow> exn option \<times> agent" where
  "agent_connect_to_rabbitmq ok ag =
     (let ag1 = (if 1 \<le> ok then ag\<lparr>connection := Some ConnOpen\<rparr> else ag);
          ag2 = (if 2 \<le> ok then ag1\<lparr>channel := True\<rparr> else ag1);
          ag3 = (if 3 \<le> ok then ag2\<lparr>exchange := True\<rparr> else ag2);
          ag4 = (if 4 \<le> ok then ag3\<lparr>queue := True\<rparr> else ag3)
      in if 5 \<le> ok then (None, log_line INFO ''Conectado ao RabbitMQ com sucesso'' ag4)
         else (Some ConnectionError, log_line ERROR ''Erro ao conectar com RabbitMQ'' ag4))"

definition start_consuming :: "agent \<Rightarrow> exn option \<times> agent" where
  "start_consuming ag =
     (if \<not> queue ag then (Some RuntimeError, ag)
      else (None, log_line INFO (''Agente iniciou consumo de mensagens: '' @ agent_name ag) ag))"

text \<open>\<^verbatim>\<open>publish_message\<close>: nothing it raises is caught.\<close>

definition publish_message :: "instant \<Rightarrow> string \<Rightarrow> pyval \<Rightarrow> agent \<Rightarrow> exn option \<times> agent" where
  "publish_message now ev_type payload ag =
     (if \<not> exchange ag then (Some RuntimeError, ag)
      else case exchange_publish
                  \<lparr>event_type = ev_type, agent_source = agent_name ag,
                   timestamp = now, data = payload\<rparr> ag of
             (Some e, ag1) \<Rightarrow> (Some e, ag1)
           | (None, ag1) \<Rightarrow>
               (None, log_line DEBUG ''Dados da mensagem''
                        (log_line INFO (''Mensagem publicada: '' @ ev_type) ag1)))"

definition agent_start :: "instant \<Rightarrow> nat \<Rightarrow> agent \<Rightarrow> exn option \<times> agent" where
  "agent_start now ok ag =
     (case agent_connect_to_rabbitmq ok
             (log_line INFO (''Iniciando agente '' @ agent_name ag) ag) of
        (Some e, ag1) \<Rightarrow> (Some e, ag1)
      | (None, ag1) \<Rightarrow>
          (case start_consuming ag1 of
             (Some e, ag2) \<Rightarrow> (Some e, ag2)
           | (None, ag2) \<Rightarrow>
               (case publish_message now ''agent.started''
                       (PDict [(''agent_name'', PStr (agent_name ag2)),
                               (''status'', PStr ''online'')]) ag2 of
                  (Some e, ag3) \<Rightarrow> (Some e, ag3)
                | (None, ag3) \<Rightarrow>
                    (None, log_line INFO (''Agente iniciado com sucesso: '' @ agent_name ag3) ag3))))"

text \<open>
  \<^verbatim>\<open>BaseAgent.stop\<close>. The announcement is guarded by \<^verbatim>\<open>self.exchange\<close> only, the close by
  \<^verbatim>\<open>self.connection and not self.connection.is_closed\<close>. Neither attribute is reset.
\<close>

definition agent_stop :: "instant \<Rightarrow> agent \<Rightarrow> exn option \<times> agent" where
  "agent_stop now ag =
     (let ag0 = log_line INFO (''Parando agente '' @ agent_name ag) ag;
          r = (if exchange ag0
               then publish_message now ''agent.stopped''
                      (PDict [(''agent_name'', PStr (agent_name ag0)),
                              (''status'', PStr ''offline'')]) ag0
               else (None, ag0))
      in (case r of
            (Some e, ag1) \<Rightarrow> (Some e, ag1)
          | (None, ag1) \<Rightarrow>
              let ag2 = (if connection ag1 = Some ConnOpen
                         then ag1\<lparr>connection := Some ConnClosed, closes := Suc (closes ag1)\<rparr>
                         else ag1)
              in (None, log_line INFO (''Agente parado: '' @ agent_name ag2) ag2)))"

text \<open>
  \<^verbatim>\<open>BaseAgent._handle_message\<close>, for a concrete agent whose \<^verbatim>\<open>process_message\<close> is the
  first argument. The \<^verbatim>\<open>try\<close> block decodes and calls \<^verbatim>\<open>process_message\<close>; the two
  \<^verbatim>\<open>except\<close> clauses log the exception and end normally.
\<close>

definition message_try ::
  "(json \<Rightarrow> agent \<Rightarrow> exn option \<times> agent) \<Rightarrow> body \<Rightarrow> agent \<Rightarrow> exn option \<times> agent" where
  "message_try process_message b ag =
     (case loads_decode b of
        Inl e \<Rightarrow> (Some e, ag)
      | Inr message_data \<Rightarrow>
          process_message message_data
            ((log_line DEBUG ''Mensagem recebida'' ag)
               \<lparr>invoked := invoked ag @ [Process_message message_data]\<rparr>))"

definition handle_message ::
  "(json \<Rightarrow> agent \<Rightarrow> exn option \<times> agent) \<Rightarrow> body \<Rightarrow> agent
     \<Rightarrow> disposition \<times> exn option \<times> agent" where
  "handle_message process_message b ag =
     process (case message_try process_message b ag of
                (Some e, ag1) \<Rightarrow>
                  if e = JSONDecodeError
                  then (None, log_line ERROR ''Erro ao decodificar mensagem JSON'' ag1)
                  else (None, log_line ERROR ''Erro ao processar mensagem'' ag1)
              | (None, ag1) \<Rightarrow> (None, ag1))"

text \<open>
  The deliveries of a queue, handled one after the other by the registered handler. The
  loop of the model would end at a handler that raises; the theorems below show that
  \<^verbatim>\<open>_handle_message\<close> does not raise on a body that fails to decode.
\<close>

fun consume ::
  "(json \<Rightarrow> agent \<Rightarrow> exn option \<times> agent) \<Rightarrow> body list \<Rightarrow> agent \<Rightarrow> disposition list \<times> agent" where
  "consume process_message [] ag = ([], ag)"
| "consume process_message (b # bs) ag =
     (case handle_message process_message b ag of
        (d, None, ag1) \<Rightarrow>
          (let (ds, ag2) = consume process_message bs ag1 in (d # ds, ag2))
      | (d, Some e, ag1) \<Rightarrow> ([d], ag1))"

subsection \<open>The photo agent\<close>

text \<open>
  \<^verbatim>\<open>PhotoAgent.process_message\<close>: the dispatch is on \<^verbatim>\<open>event_type\<close> alone. The four
  private handlers it dispatches to work on the photo library, and two of them publish
  an event through \<^verbatim>\<open>organize_photos\<close> and \<^verbatim>\<open>process_photos\<close>. That code is outside the
  messaging core and is not embedded: \<open>handlers name d\<close> stands for the run of the
  handler called \<open>name\<close> on the data \<open>d\<close>, with whatever it changes, publishes or raises.
\<close>

definition photo_process_message ::
  "(string \<Rightarrow> json \<Rightarrow> agent \<Rightarrow> exn option \<times> agent) \<Rightarrow> json \<Rightarrow> agent \<Rightarrow> exn option \<times> agent" where
  "photo_process_message handlers message ag =
     (case json_get message ''event_type'' (JStr '''') of
        Inl e \<Rightarrow> (Some e, ag)
      | Inr ev \<Rightarrow>
     (case json_get message ''data'' (JObj []) of
        Inl e \<Rightarrow> (Some e, ag)
      | Inr d \<Rightarrow>
          let ag1 = log_line DEBUG ''Processando evento'' ag
          in if ev = JStr ''task.photo_organization''
             then handlers ''_handle_photo_organization_task'' d ag1
             else if ev = JStr ''task.photo_processing''
             then handlers ''_handle_photo_processing_task'' d ag1
             else if ev = JStr ''crm.new_client''
             then handlers ''_handle_new_client_event'' d ag1
             else if ev = JStr ''calendar.session_scheduled''
             then handlers ''_handle_session_scheduled'' d ag1
             else (None, log_line DEBUG ''Evento nao processado pelo PhotoAgent'' ag1)))"

text \<open>
  A direct message of kind \<^verbatim>\<open>task_request\<close> as \<^verbatim>\<open>_send_task_to_agent\<close> writes it: a
  dictionary whose \<^verbatim>\<open>type\<close> is \<^verbatim>\<open>task_request\<close>, with a \<^verbatim>\<open>task\<close> and without the
  \<^verbatim>\<open>event_type\<close> key of a broadcast.
\<close>

definition is_task_request :: "json \<Rightarrow> bool" where
  "is_task_request m =
     (case m of
        JObj kvs \<Rightarrow> map_of kvs ''type'' = Some (JStr ''task_request'') \<and>
                    map_of kvs ''task'' \<noteq> None \<and> map_of kvs ''event_type'' = None
      | _ \<Rightarrow> False)"

section \<open>Auxiliary notions for the proofs\<close>

text \<open>The status a sweep at \<open>now\<close> leaves in a record, and whether it raises the alarm.\<close>

definition swept_status :: "instant \<Rightarrow> agent_info \<Rightarrow> string" where
  "swept_status now r =
     (case last_seen r of
        None \<Rightarrow> ''expected''
      | Some t \<Rightarrow> if now - t > 300 then ''unresponsive'' else status r)"

definition triggers :: "instant \<Rightarrow> agent_info \<Rightarrow> bool" where
  "triggers now r =
     (case last_seen r of
        None \<Rightarrow> False
      | Some t \<Rightarrow> now - t > 300 \<and> status r \<noteq> ''unresponsive'')"

text \<open>The entry that \<^verbatim>\<open>_start_agent_monitoring\<close> creates for every rostered identity.\<close>

definition fresh :: agent_info where
  "fresh = \<lparr>status = ''expected'', last_seen = None, messages_received = 0, errors = 0\<rparr>"

text \<open>
  The record a consumed event of type \<open>ev\<close> leaves for its source, and the value
  \<^verbatim>\<open>message_data.get(k, '')\<close> of a decoded dictionary.
\<close>

definition signalled :: "instant \<Rightarrow> json \<Rightarrow> agent_info \<Rightarrow> agent_info" where
  "signalled now ev r =
     r\<lparr>last_seen := Some now, messages_received := messages_received r + 1,
       status := (if ev = JStr ''agent.started'' then ''online''
                  else if ev = JStr ''agent.stopped'' then ''offline'' else status r)\<rparr>"

definition field :: "(string \<times> json) list \<Rightarrow> string \<Rightarrow> json" where
  "field kvs k = (case map_of kvs k of None \<Rightarrow> JStr '''' | Some v \<Rightarrow> v)"

text \<open>
  Concrete inputs: the \<^verbatim>\<open>agent.started\<close> event that \<^verbatim>\<open>BaseAgent.start\<close> publishes, as the
  orchestrator receives it; the started orchestrator after it has consumed that event
  from the photo agent at time 0; an event of another type from the photo agent.
\<close>

definition started_msg :: "string \<Rightarrow> body" where
  "started_msg a =
     Json (JObj [(''event_type'', JStr ''agent.started''), (''agent_source'', JStr a),
                 (''timestamp'', JStr ''2024-01-01T00:00:00''),
                 (''data'', JObj [(''agent_name'', JStr a), (''status'', JStr ''online'')])])"

definition seen_once :: orchestrator where
  "seen_once = do_step (Deliver 0 (started_msg ''photo-agent'')) (snd (start 0 5 (init 0)))"

definition heartbeat :: "(string \<times> json) list" where
  "heartbeat = [(''event_type'', JStr ''photos.processed''), (''agent_source'', JStr ''photo-agent''),
                (''timestamp'', JStr ''2024-01-01T00:05:10''), (''data'', JObj [])]"

text \<open>
  A started photo agent; the \<^verbatim>\<open>task_request\<close> that step 2 of the client onboarding
  sends to it, as decoded from its queue; the onboarding request for the client Ana; a
  started orchestrator whose third publish call (the second send of a workflow, after
  \<^verbatim>\<open>system.started\<close> and the first send) fails; the routing key and dictionary that
  \<^verbatim>\<open>_send_task_to_agent\<close> publishes.
\<close>

definition photo_agent :: agent where
  "photo_agent = snd (agent_start 0 5 (agent_init ''photo-agent''))"

definition create_folder_request :: json where
  "create_folder_request =
     JObj [(''type'', JStr ''task_request''), (''from'', JStr ''orchestrator''),
           (''to'', JStr ''photo-agent''), (''timestamp'', JStr ''2024-01-01T00:00:10''),
           (''task'', JObj [(''type'', JStr ''create_client_folder''),
                            (''client_name'', JStr ''Ana'')])]"

definition onboarding_ana :: pyval where
  "onboarding_ana =
     PDict [(''type'', PStr ''client_onboarding''),
            (''client_data'', PDict [(''name'', PStr ''Ana'')])]"

definition second_send_fails :: orchestrator where
  "second_send_fails = (snd (start 0 5 (init 0)))\<lparr>faults := {2}\<rparr>"

definition task_message :: "instant \<Rightarrow> string \<Rightarrow> pyval \<Rightarrow> string \<times> direct_message" where
  "task_message now agent task_data =
     (agent @ ''.queue'',
      \<lparr>msg_type = ''task_request'', msg_from = ''orchestrator'', msg_to = agent,
       msg_timestamp = now, task = task_data\<rparr>)"

section \<open>The state after a successful start\<close>

lemma fst_start: "fst (start now 5 (init t0)) = None"
  by (simp add: start_def init_def connect_to_rabbitmq_def start_agent_monitoring_def
      log_line_def Let_def)

lemma agents_publish_system_event [simp]:
  "agents (publish_system_event now ty p st) = agents st"
  by (simp add: publish_system_event_def exchange_publish_def broker_call_def log_line_def
      Let_def split: prod.split option.split)

lemma agents_start:
  "agents (snd (start now 5 (init t0))) =
     [(''photo-agent'', fresh), (''marketing-agent'', fresh), (''social-media-agent'', fresh),
      (''crm-agent'', fresh), (''calendar-agent'', fresh), (''finance-agent'', fresh),
      (''task-agent'', fresh)]"
  by (simp add: start_def init_def connect_to_rabbitmq_def start_agent_monitoring_def
      log_line_def Let_def fresh_def)

lemma connected_start:
  "exchange (snd (start now 5 (init t0)))"
  "channel (snd (start now 5 (init t0)))"
  "connection (snd (start now 5 (init t0))) = Some ConnOpen"
  "faults (snd (start now 5 (init t0))) = {}"
  by (simp_all add: start_def init_def connect_to_rabbitmq_def start_agent_monitoring_def
      log_line_def Let_def publish_system_event_def exchange_publish_def broker_call_def)

section \<open>The health sweep\<close>

lemma fst_check_agent:
  "fst (check_agent now n r st) = r\<lparr>status := swept_status now r\<rparr>"
  by (simp add: check_agent_def swept_status_def Let_def split: option.split)

lemma map_of_health_loop:
  "map_of (fst (health_loop now items st)) a
     = map_option (\<lambda>r. r\<lparr>status := swept_status now r\<rparr>) (map_of items a)"
proof (induction items arbitrary: st)
  case Nil
  show ?case by simp
next
  case (Cons p items)
  obtain n r where p: "p = (n, r)" by (cases p)
  obtain r' st1 where c: "check_agent now n r st = (r', st1)" by (cases "check_agent now n r st")
  have r': "r' = r\<lparr>status := swept_status now r\<rparr>"
    using fst_check_agent [of now n r st] c by simp
  obtain rest' st2 where h: "health_loop now items st1 = (rest', st2)"
    by (cases "health_loop now items st1")
  have "map_of rest' a = map_option (\<lambda>r. r\<lparr>status := swept_status now r\<rparr>) (map_of items a)"
    using Cons.IH [of st1] h by simp
  then show ?case by (simp add: p c h r')
qed

lemma agents_check_agent_health:
  "agents (check_agent_health now st) = fst (health_loop now (agents st) st)"
  by (simp add: check_agent_health_def split: prod.split)

lemma record_of_check_agent_health:
  "record_of (check_agent_health now st) a
     = map_option (\<lambda>r. r\<lparr>status := swept_status now r\<rparr>) (record_of st a)"
  by (simp add: record_of_def agents_check_agent_health map_of_health_loop)

lemma keys_health_loop: "map fst (fst (health_loop now items st)) = map fst items"
proof (induction items arbitrary: st)
  case Nil
  show ?case by simp
next
  case (Cons p items)
  obtain n r where p: "p = (n, r)" by (cases p)
  obtain r' st1 where c: "check_agent now n r st = (r', st1)" by (cases "check_agent now n r st")
  obtain rest' st2 where h: "health_loop now items st1 = (rest', st2)"
    by (cases "health_loop now items st1")
  have "map fst rest' = map fst items" using Cons.IH [of st1] h by simp
  then show ?case by (simp add: p c h)
qed

text \<open>
  C8. A record with status \<^verbatim>\<open>expected\<close> and \<^verbatim>\<open>last_seen = None\<close> is left exactly as it is
  by any number of health sweeps, whatever the clock readings of the sweeps are: its
  status stays \<^verbatim>\<open>expected\<close> and it is promoted to nothing else.
\<close>

theorem sweeps_keep_expected:
  assumes "record_of st a = Some r" and "status r = ''expected''" and "last_seen r = None"
  shows "record_of (run (map Sweep ts) st) a = Some r"
  using assms
proof (induction ts arbitrary: st)
  case Nil
  then show ?case by simp
next
  case (Cons t ts)
  have "record_of (check_agent_health t st) a = Some (r\<lparr>status := swept_status t r\<rparr>)"
    using Cons.prems(1) by (simp add: record_of_check_agent_health)
  moreover have "r\<lparr>status := swept_status t r\<rparr> = r"
    using Cons.prems(2,3) by (simp add: swept_status_def)
  ultimately have "record_of (check_agent_health t st) a = Some r" by simp
  from Cons.IH [OF this Cons.prems(2,3)] show ?case by simp
qed

theorem sweeps_keep_expected_witness:
  "record_of (snd (start 0 5 (init 0))) ''marketing-agent'' = Some fresh \<and>
   status fresh = ''expected'' \<and> last_seen fresh = None \<and>
   record_of (run (map Sweep [30, 60, 400]) (snd (start 0 5 (init 0)))) ''marketing-agent''
     = Some fresh"
proof -
  have h1: "record_of (snd (start 0 5 (init 0))) ''marketing-agent'' = Some fresh"
    by (simp add: record_of_def agents_start)
  have h2: "status fresh = ''expected''" by (simp add: fresh_def)
  have h3: "last_seen fresh = None" by (simp add: fresh_def)
  show ?thesis
    using h1 h2 h3 sweeps_keep_expected [OF h1 h2 h3, of "[30, 60, 400]"] by simp
qed

section \<open>Consumed messages, runs and alarms\<close>

lemma map_of_map_entry_eq:
  "map_of (AList.map_entry k f xs) x = (if x = k then map_option f (map_of xs x) else map_of xs x)"
  by (induction xs) auto

lemma record_of_update_agent:
  "record_of (update_agent now a ev st) x
     = (if x = a then map_option (signalled now ev) (record_of st x) else record_of st x)"
  by (cases "map_of (agents st) a")
     (auto simp add: update_agent_def record_of_def log_line_def Let_def map_of_map_entry_eq
        signalled_def)

lemma record_of_deliver:
  "record_of (do_step (Deliver now b) st) x =
     (case b of
        Json (JObj kvs) \<Rightarrow>
          if field kvs ''agent_source'' = JStr x
          then map_option (signalled now (field kvs ''event_type'')) (record_of st x)
          else record_of st x
      | _ \<Rightarrow> record_of st x)"
proof (cases b)
  case NotUtf8
  then show ?thesis
    by (simp add: handle_agent_message_def agent_message_try_def process_def log_line_def
        record_of_def)
next
  case NotJson
  then show ?thesis
    by (simp add: handle_agent_message_def agent_message_try_def process_def log_line_def
        record_of_def)
next
  case (Json m)
  show ?thesis
  proof (cases m)
    case (JObj kvs)
    show ?thesis
    proof (cases "field kvs ''agent_source''")
      case (JStr s)
      have "record_of (do_step (Deliver now b) st) x
              = (if map_of (agents st) s \<noteq> None
                 then record_of (update_agent now s (field kvs ''event_type'') st) x
                 else record_of st x)"
        using Json JObj JStr
        by (simp add: handle_agent_message_def agent_message_try_def process_def log_line_def
            record_of_def field_def Let_def)
      moreover have "map_of (agents st) s = None \<Longrightarrow> s = x \<Longrightarrow> record_of st x = None"
        by (simp add: record_of_def)
      ultimately show ?thesis
        using Json JObj JStr
        by (cases "s = x"; cases "map_of (agents st) s")
           (simp_all add: record_of_update_agent del: do_step.simps)
    qed (use Json JObj in \<open>simp_all add: handle_agent_message_def agent_message_try_def
           process_def log_line_def record_of_def field_def Let_def\<close>)
  qed (use Json in \<open>simp_all add: handle_agent_message_def agent_message_try_def
         process_def log_line_def record_of_def\<close>)
qed

lemma agents_send_task_to_agent [simp]:
  "agents (send_task_to_agent now n t st) = agents st"
  by (simp add: send_task_to_agent_def default_exchange_publish_def broker_call_def
      log_line_def Let_def split: prod.split option.split sum.split)

lemma agents_execute_client_onboarding [simp]:
  "agents (snd (execute_client_onboarding now t st)) = agents st"
  by (simp add: execute_client_onboarding_def Let_def split: sum.split)

lemma agents_execute_marketing_campaign [simp]:
  "agents (snd (execute_marketing_campaign now t st)) = agents st"
  by (simp add: execute_marketing_campaign_def Let_def split: sum.split)

lemma agents_execute_photo_workflow [simp]:
  "agents (snd (execute_photo_workflow now t st)) = agents st"
  by (simp add: execute_photo_workflow_def Let_def split: sum.split)

lemma agents_log_line [simp]: "agents (log_line lv m (s :: orchestrator)) = agents s"
  by (simp add: log_line_def)

lemma agents_execute_distributed_task [simp]:
  "agents (snd (execute_distributed_task now t st)) = agents st"
proof (cases "py_get t ''type'' (PStr '''')")
  case (Inl e)
  then show ?thesis by (simp add: execute_distributed_task_def)
next
  case (Inr ty)
  have out: "agents (snd (case r of (Inl e, s1) \<Rightarrow> (c e, log_line lv m s1)
                                  | (Inr res, s1) \<Rightarrow> (res, s1))) = agents (snd r)"
    for r :: "(exn + pyval) \<times> orchestrator" and c lv m
    by (cases r; cases "fst r") auto
  show ?thesis
    unfolding execute_distributed_task_def Let_def Inr sum.case out
    by simp
qed

lemma record_of_stats [simp]: "record_of (publish_system_stats now st) x = record_of st x"
  by (simp add: record_of_def publish_system_stats_def)

lemma record_of_dispatch [simp]:
  "record_of (snd (execute_distributed_task now t st)) x = record_of st x"
  by (simp add: record_of_def)

lemma is_started_from_field:
  "is_started_from a (Deliver now (Json (JObj kvs)))
     \<longleftrightarrow> field kvs ''event_type'' = JStr ''agent.started'' \<and> field kvs ''agent_source'' = JStr a"
  by (simp add: is_started_from_def field_def)

lemma not_online_step:
  assumes "record_of st a = Some r" "status r \<noteq> ''online''" "\<not> is_started_from a s"
  shows "\<exists>r'. record_of (do_step s st) a = Some r' \<and> status r' \<noteq> ''online''"
proof (cases s)
  case (Deliver now b)
  show ?thesis
  proof (cases b)
    case (Json m)
    show ?thesis
    proof (cases m)
      case (JObj kvs)
      have ns: "\<not> (field kvs ''event_type'' = JStr ''agent.started''
                  \<and> field kvs ''agent_source'' = JStr a)"
        using assms(3) Deliver Json JObj by (simp add: is_started_from_field)
      show ?thesis
        unfolding Deliver Json JObj record_of_deliver
        using assms(1,2) ns by (auto simp add: signalled_def)
    qed (use assms(1,2) Deliver Json in \<open>simp_all add: record_of_deliver del: do_step.simps\<close>)
  qed (use assms(1,2) Deliver in \<open>simp_all add: record_of_deliver del: do_step.simps\<close>)
next
  case (Sweep now)
  then show ?thesis
    using assms(1,2)
    by (auto simp add: record_of_check_agent_health swept_status_def split: option.split)
next
  case (Stats now)
  then show ?thesis using assms(1,2) by simp
next
  case (Dispatch now t)
  then show ?thesis using assms(1,2) by simp
qed

lemma not_online_run:
  assumes "record_of st a = Some r" "status r \<noteq> ''online''"
    "\<forall>s \<in> set steps. \<not> is_started_from a s"
  shows "\<exists>r'. record_of (run steps st) a = Some r' \<and> status r' \<noteq> ''online''"
  using assms
proof (induction steps arbitrary: st r)
  case Nil
  then show ?case by simp
next
  case (Cons s steps)
  have "\<not> is_started_from a s" using Cons.prems(3) by simp
  from not_online_step [OF Cons.prems(1,2) this]
  obtain r1 where r1: "record_of (do_step s st) a = Some r1" "status r1 \<noteq> ''online''" by blast
  have "\<forall>s \<in> set steps. \<not> is_started_from a s" using Cons.prems(3) by simp
  from Cons.IH [OF r1 this] show ?case by simp
qed

lemma errors_step:
  "map_option errors (record_of (do_step s st) x) = map_option errors (record_of st x)"
proof (cases s)
  case (Deliver now b)
  show ?thesis
    unfolding Deliver record_of_deliver
    by (cases "record_of st x")
       (auto simp add: signalled_def split: body.split json.split)
next
  case (Sweep now)
  then show ?thesis
    by (cases "record_of st x") (simp_all add: record_of_check_agent_health)
qed simp_all

lemma errors_run:
  "map_option errors (record_of (run steps st) x) = map_option errors (record_of st x)"
  by (induction steps arbitrary: st) (simp_all add: errors_step del: do_step.simps)

lemma map_of_init_agents:
  "map_of (init_agents names ags) x = (if x \<in> set names then Some fresh else map_of ags x)"
  by (induction names arbitrary: ags) (auto simp add: update_conv' fresh_def)

lemma env_publish_system_event [simp]:
  "exchange (publish_system_event now ty p st) = exchange st"
  "connection (publish_system_event now ty p st) = connection st"
  "faults (publish_system_event now ty p st) = faults st"
  "channel (publish_system_event now ty p st) = channel st"
  by (simp_all add: publish_system_event_def exchange_publish_def broker_call_def log_line_def
      Let_def split: prod.split option.split)

lemma fanout_publish_system_event:
  "fanout (publish_system_event now ty p st) =
     (if exchange st \<and> serialisable p \<and> connection st = Some ConnOpen
         \<and> publish_calls st \<notin> faults st
      then fanout st @ [\<lparr>event_type = ty, agent_source = ''orchestrator'',
                         timestamp = now, data = p\<rparr>]
      else fanout st)"
  by (simp add: publish_system_event_def exchange_publish_def broker_call_def log_line_def
      Let_def)

lemma env_check_agent [simp]:
  "exchange (snd (check_agent now n r st)) = exchange st"
  "connection (snd (check_agent now n r st)) = connection st"
  "faults (snd (check_agent now n r st)) = faults st"
  by (simp_all add: check_agent_def log_line_def Let_def split: option.split)

lemma fanout_check_agent_quiet:
  "\<not> triggers now r \<Longrightarrow> fanout (snd (check_agent now n r st)) = fanout st"
  by (auto simp add: check_agent_def triggers_def log_line_def Let_def split: option.split)

lemma alarms_check_agent_other:
  "n \<noteq> a \<Longrightarrow>
   filter (is_alarm a) (fanout (snd (check_agent now n r st))) = filter (is_alarm a) (fanout st)"
  by (simp add: check_agent_def fanout_publish_system_event is_alarm_def log_line_def Let_def
      split: option.split)

lemma alarms_check_agent_fires:
  assumes "triggers now r" "exchange st" "connection st = Some ConnOpen" "faults st = {}"
  shows "length (filter (is_alarm a) (fanout (snd (check_agent now a r st))))
           = Suc (length (filter (is_alarm a) (fanout st)))"
proof -
  obtain t where t: "last_seen r = Some t" "300 < now - t" "status r \<noteq> ''unresponsive''"
    using assms(1) by (auto simp add: triggers_def split: option.splits)
  show ?thesis
    using t assms(2,3,4)
    by (simp add: check_agent_def fanout_publish_system_event is_alarm_def log_line_def Let_def)
qed

lemma alarms_health_loop_quiet:
  "(\<And>r. (a, r) \<in> set items \<Longrightarrow> \<not> triggers now r) \<Longrightarrow>
   filter (is_alarm a) (fanout (snd (health_loop now items st))) = filter (is_alarm a) (fanout st)"
proof (induction items arbitrary: st)
  case Nil
  show ?case by simp
next
  case (Cons p items)
  obtain n r where p: "p = (n, r)" by (cases p)
  obtain r' st1 where c: "check_agent now n r st = (r', st1)" by (cases "check_agent now n r st")
  obtain rest' st2 where h: "health_loop now items st1 = (rest', st2)"
    by (cases "health_loop now items st1")
  have one: "filter (is_alarm a) (fanout st1) = filter (is_alarm a) (fanout st)"
  proof (cases "n = a")
    case True
    then have "\<not> triggers now r" using Cons.prems [of r] p by simp
    then show ?thesis using fanout_check_agent_quiet [of now r n st] c by simp
  next
    case False
    then show ?thesis using alarms_check_agent_other [of n a now r st] c by simp
  qed
  have "filter (is_alarm a) (fanout st2) = filter (is_alarm a) (fanout st1)"
    using Cons.IH [of st1] Cons.prems h by simp
  then show ?case using one by (simp add: p c h)
qed

lemma alarms_health_loop_fires:
  assumes "distinct (map fst items)" "map_of items a = Some r" "triggers now r"
    "exchange st" "connection st = Some ConnOpen" "faults st = {}"
  shows "length (filter (is_alarm a) (fanout (snd (health_loop now items st))))
           = Suc (length (filter (is_alarm a) (fanout st)))"
  using assms
proof (induction items arbitrary: st)
  case Nil
  then show ?case by simp
next
  case (Cons p items)
  obtain n r0 where p: "p = (n, r0)" by (cases p)
  obtain r' st1 where c: "check_agent now n r0 st = (r', st1)" by (cases "check_agent now n r0 st")
  obtain rest' st2 where h: "health_loop now items st1 = (rest', st2)"
    by (cases "health_loop now items st1")
  have st1: "st1 = snd (check_agent now n r0 st)" using c by simp
  have st2: "st2 = snd (health_loop now items st1)" using h by simp
  have env: "exchange st1" "connection st1 = Some ConnOpen" "faults st1 = {}"
    using Cons.prems(4,5,6) by (simp_all add: st1)
  show ?case
  proof (cases "n = a")
    case True
    then have r0: "r0 = r" using Cons.prems(2) p by simp
    have "a \<notin> fst ` set items" using Cons.prems(1) p True by simp
    then have "\<And>x. (a, x) \<in> set items \<Longrightarrow> \<not> triggers now x" by force
    then have "filter (is_alarm a) (fanout st2) = filter (is_alarm a) (fanout st1)"
      unfolding st2 by (rule alarms_health_loop_quiet)
    moreover have "length (filter (is_alarm a) (fanout st1))
                     = Suc (length (filter (is_alarm a) (fanout st)))"
      unfolding st1 True r0 using Cons.prems(3,4,5,6) by (rule alarms_check_agent_fires)
    ultimately show ?thesis by (simp add: p c h)
  next
    case False
    have "filter (is_alarm a) (fanout st1) = filter (is_alarm a) (fanout st)"
      unfolding st1 using False by (rule alarms_check_agent_other)
    moreover have "length (filter (is_alarm a) (fanout st2))
                     = Suc (length (filter (is_alarm a) (fanout st1)))"
      unfolding st2 using Cons.IH [of st1] Cons.prems(1,2,3) env p False by simp
    ultimately show ?thesis by (simp add: p c h)
  qed
qed

lemma fanout_check_agent_health:
  "fanout (check_agent_health now st) = fanout (snd (health_loop now (agents st) st))"
  by (simp add: check_agent_health_def split: prod.split)

lemma env_deliver [simp]:
  "exchange (do_step (Deliver now b) st) = exchange st"
  "connection (do_step (Deliver now b) st) = connection st"
  "faults (do_step (Deliver now b) st) = faults st"
  by (simp_all add: handle_agent_message_def agent_message_try_def process_def log_line_def
      update_agent_def Let_def split: sum.split option.split prod.split)

lemma keys_map_entry [simp]: "map fst (AList.map_entry k f xs) = map fst xs"
  by (induction xs) auto

lemma keys_deliver [simp]:
  "map fst (agents (do_step (Deliver now b) st)) = map fst (agents st)"
  by (simp add: handle_agent_message_def agent_message_try_def process_def log_line_def
      update_agent_def Let_def split: sum.split option.split prod.split)

lemma started_msg_is_started: "is_started_from a (Deliver now (started_msg a))"
  by (simp add: is_started_from_def started_msg_def)

lemma record_of_start:
  "record_of (snd (start now 5 (init t0))) ''photo-agent'' = Some fresh"
  "record_of (snd (start now 5 (init t0))) ''marketing-agent'' = Some fresh"
  by (simp_all add: record_of_def agents_start)

lemma record_of_seen_once:
  "record_of seen_once ''photo-agent''
     = Some (fresh\<lparr>status := ''online'', last_seen := Some 0, messages_received := 1\<rparr>)"
  unfolding seen_once_def started_msg_def record_of_deliver
  by (simp add: field_def signalled_def record_of_start fresh_def)

lemma env_seen_once:
  "distinct (map fst (agents seen_once))" "exchange seen_once"
  "connection seen_once = Some ConnOpen" "faults seen_once = {}"
  unfolding seen_once_def
  by (simp_all add: connected_start agents_start del: do_step.simps)

lemma record_of_silenced:
  "record_of (check_agent_health 301 seen_once) ''photo-agent''
     = Some (fresh\<lparr>status := ''unresponsive'', last_seen := Some 0, messages_received := 1\<rparr>)"
  by (simp add: record_of_check_agent_health record_of_seen_once swept_status_def fresh_def)

section \<open>The claims about the registry\<close>

text \<open>
  C1. In a connected orchestrator whose broker accepts the publish calls, a record
  that was last seen more than 300 seconds before the sweep (301 in the claim) and is
  not yet \<^verbatim>\<open>unresponsive\<close> gets that status from one run of \<^verbatim>\<open>_check_agent_health\<close>, and
  that run publishes exactly one \<^verbatim>\<open>agent.unresponsive\<close> event about it. A second sweep
  that directly follows, at any clock reading, publishes no further one.
\<close>

theorem silent_agent_alarm_once:
  assumes "distinct (map fst (agents st))"
    and "record_of st a = Some r" and "last_seen r = Some seen" and "300 < now - seen"
    and "status r \<noteq> ''unresponsive''"
    and "exchange st" and "connection st = Some ConnOpen" and "faults st = {}"
  shows "map_option status (record_of (check_agent_health now st) a) = Some ''unresponsive'' \<and>
         length (alarms a (check_agent_health now st)) = Suc (length (alarms a st)) \<and>
         alarms a (check_agent_health now' (check_agent_health now st))
           = alarms a (check_agent_health now st)"
proof -
  let ?st1 = "check_agent_health now st"
  have trig: "triggers now r" using assms(3,4,5) by (simp add: triggers_def)
  have rec1: "record_of ?st1 a = Some (r\<lparr>status := ''unresponsive''\<rparr>)"
    using assms(2,3,4) by (simp add: record_of_check_agent_health swept_status_def)
  have c1: "map_option status (record_of ?st1 a) = Some ''unresponsive''"
    using rec1 by simp
  have c2: "length (alarms a ?st1) = Suc (length (alarms a st))"
    unfolding alarms_def fanout_check_agent_health
    using assms(1) assms(2) [unfolded record_of_def] trig assms(6,7,8)
    by (rule alarms_health_loop_fires)
  have d1: "distinct (map fst (agents ?st1))"
    using assms(1) by (simp add: agents_check_agent_health keys_health_loop)
  have quiet: "\<not> triggers now' x" if "(a, x) \<in> set (agents ?st1)" for x
  proof -
    have "map_of (agents ?st1) a = Some x" using d1 that by simp
    then have "x = r\<lparr>status := ''unresponsive''\<rparr>" using rec1 by (simp add: record_of_def)
    then show ?thesis by (simp add: triggers_def split: option.split)
  qed
  have c3: "alarms a (check_agent_health now' ?st1) = alarms a ?st1"
    unfolding alarms_def fanout_check_agent_health [of now' ?st1]
    using quiet by (rule alarms_health_loop_quiet)
  show ?thesis using c1 c2 c3 by simp
qed

theorem silent_agent_alarm_once_witness:
  "record_of seen_once ''photo-agent''
     = Some (fresh\<lparr>status := ''online'', last_seen := Some 0, messages_received := 1\<rparr>) \<and>
   map_option status (record_of (check_agent_health 301 seen_once) ''photo-agent'')
     = Some ''unresponsive'' \<and>
   length (alarms ''photo-agent'' (check_agent_health 301 seen_once))
     = Suc (length (alarms ''photo-agent'' seen_once)) \<and>
   alarms ''photo-agent'' (check_agent_health 331 (check_agent_health 301 seen_once))
     = alarms ''photo-agent'' (check_agent_health 301 seen_once)"
proof -
  let ?r = "fresh\<lparr>status := ''online'', last_seen := Some 0, messages_received := 1\<rparr>"
  have h3: "last_seen ?r = Some 0" by simp
  have h4: "(300::real) < 301 - 0" by simp
  have h5: "status ?r \<noteq> ''unresponsive''" by simp
  show ?thesis
    using record_of_seen_once
      silent_agent_alarm_once [OF env_seen_once(1) record_of_seen_once h3 h4 h5
        env_seen_once(2,3,4), of 331]
    by simp
qed

text \<open>
  C6. When the orchestrator consumes an \<^verbatim>\<open>agent.started\<close> event whose source is a key
  of its registry, the message is acknowledged, that record becomes \<^verbatim>\<open>online\<close> with
  \<^verbatim>\<open>last_seen\<close> set to the current time and \<^verbatim>\<open>messages_received\<close> one higher, and the
  record of every other identity is what it was.
\<close>

theorem started_event_sets_online:
  assumes "is_started_from a (Deliver now b)" and "record_of st a = Some r"
  shows "fst (handle_agent_message now b st) = Ack \<and>
         record_of (snd (snd (handle_agent_message now b st))) a
           = Some (r\<lparr>status := ''online'', last_seen := Some now,
                     messages_received := messages_received r + 1\<rparr>) \<and>
         (\<forall>x. x \<noteq> a \<longrightarrow>
            record_of (snd (snd (handle_agent_message now b st))) x = record_of st x)"
proof -
  obtain kvs where b: "b = Json (JObj kvs)"
    using assms(1) by (auto simp add: is_started_from_def split: body.splits json.splits)
  have f: "field kvs ''event_type'' = JStr ''agent.started''" "field kvs ''agent_source'' = JStr a"
    using assms(1) b by (simp_all add: is_started_from_field)
  have ack: "fst (handle_agent_message now b st) = Ack"
    by (simp add: handle_agent_message_def process_def split: prod.split option.split)
  have step: "snd (snd (handle_agent_message now b st)) = do_step (Deliver now b) st" by simp
  have own: "record_of (do_step (Deliver now b) st) a
               = Some (r\<lparr>status := ''online'', last_seen := Some now,
                         messages_received := messages_received r + 1\<rparr>)"
    unfolding b record_of_deliver using f assms(2) by (simp add: signalled_def)
  have others: "record_of (do_step (Deliver now b) st) x = record_of st x" if "x \<noteq> a" for x
    unfolding b record_of_deliver using f that by simp
  show ?thesis unfolding step using ack own others by blast
qed

theorem started_event_sets_online_witness:
  "fst (handle_agent_message 12 (started_msg ''photo-agent'') (snd (start 0 5 (init 0)))) = Ack \<and>
   record_of (snd (snd (handle_agent_message 12 (started_msg ''photo-agent'')
                          (snd (start 0 5 (init 0)))))) ''photo-agent''
     = Some \<lparr>status = ''online'', last_seen = Some 12, messages_received = 1, errors = 0\<rparr> \<and>
   record_of (snd (snd (handle_agent_message 12 (started_msg ''photo-agent'')
                          (snd (start 0 5 (init 0)))))) ''marketing-agent''
     = Some \<lparr>status = ''expected'', last_seen = None, messages_received = 0, errors = 0\<rparr>"
  using started_event_sets_online [OF started_msg_is_started record_of_start(1), of 12 0 0]
    record_of_start(2) [of 0 0]
  by (simp add: fresh_def)

text \<open>
  C7. Once a record is \<^verbatim>\<open>unresponsive\<close>, no run of sweeps, statistics, dispatches and
  consumed messages that contains no \<^verbatim>\<open>agent.started\<close> from that identity leaves it
  \<^verbatim>\<open>online\<close>. An event from the identity that is not \<^verbatim>\<open>agent.started\<close> sets
  \<^verbatim>\<open>last_seen\<close> to the current time and does not make the record \<^verbatim>\<open>online\<close>.
\<close>

theorem unresponsive_is_one_way:
  assumes "record_of st a = Some r" and "status r = ''unresponsive''"
    and "\<forall>s \<in> set steps. \<not> is_started_from a s"
  shows "(\<exists>r'. record_of (run steps st) a = Some r' \<and> status r' \<noteq> ''online'') \<and>
         (\<forall>now kvs.
            json_get (JObj kvs) ''agent_source'' (JStr '''') = Inr (JStr a) \<and>
            \<not> is_started_from a (Deliver now (Json (JObj kvs))) \<longrightarrow>
            (\<exists>r'. record_of (snd (snd (handle_agent_message now (Json (JObj kvs)) st))) a = Some r'
                    \<and> last_seen r' = Some now \<and> status r' \<noteq> ''online''))"
proof -
  have ne: "status r \<noteq> ''online''" using assms(2) by simp
  have one: "\<exists>r'. record_of (run steps st) a = Some r' \<and> status r' \<noteq> ''online''"
    using assms(1) ne assms(3) by (rule not_online_run)
  have two: "\<exists>r'. record_of (snd (snd (handle_agent_message now (Json (JObj kvs)) st))) a = Some r'
                    \<and> last_seen r' = Some now \<and> status r' \<noteq> ''online''"
    if src: "json_get (JObj kvs) ''agent_source'' (JStr '''') = Inr (JStr a)"
      and ns: "\<not> is_started_from a (Deliver now (Json (JObj kvs)))" for now kvs
  proof -
    have fs: "field kvs ''agent_source'' = JStr a" using src by (simp add: field_def)
    have fe: "field kvs ''event_type'' \<noteq> JStr ''agent.started''"
      using ns fs by (simp add: is_started_from_field)
    have step: "snd (snd (handle_agent_message now (Json (JObj kvs)) st))
                  = do_step (Deliver now (Json (JObj kvs))) st" by simp
    show ?thesis
      unfolding step record_of_deliver using fs fe assms(1,2) by (simp add: signalled_def)
  qed
  show ?thesis using one two by blast
qed

theorem unresponsive_is_one_way_witness:
  "(\<exists>r'. record_of (run [Deliver 310 (Json (JObj heartbeat)), Sweep 331, Stats 331,
                          Deliver 340 (started_msg ''marketing-agent'')]
                       (check_agent_health 301 seen_once)) ''photo-agent'' = Some r'
          \<and> status r' \<noteq> ''online'') \<and>
   (\<exists>r'. record_of (snd (snd (handle_agent_message 310 (Json (JObj heartbeat))
                                 (check_agent_health 301 seen_once)))) ''photo-agent'' = Some r'
          \<and> last_seen r' = Some 310 \<and> status r' \<noteq> ''online'')"
proof -
  let ?r = "fresh\<lparr>status := ''unresponsive'', last_seen := Some 0, messages_received := 1\<rparr>"
  let ?steps = "[Deliver 310 (Json (JObj heartbeat)), Sweep 331, Stats 331,
                 Deliver 340 (started_msg ''marketing-agent'')]"
  have h2: "status ?r = ''unresponsive''" by simp
  have h3: "\<forall>s \<in> set ?steps. \<not> is_started_from ''photo-agent'' s"
    by (simp add: is_started_from_def heartbeat_def started_msg_def)
  note inst = unresponsive_is_one_way [OF record_of_silenced h2 h3]
  have src: "json_get (JObj heartbeat) ''agent_source'' (JStr '''') = Inr (JStr ''photo-agent'')"
    by (simp add: heartbeat_def)
  have ns: "\<not> is_started_from ''photo-agent'' (Deliver 310 (Json (JObj heartbeat)))"
    by (simp add: is_started_from_def heartbeat_def)
  from inst have one: "\<exists>r'. record_of (run ?steps (check_agent_health 301 seen_once)) ''photo-agent''
                            = Some r' \<and> status r' \<noteq> ''online''"
    by (rule conjunct1)
  from inst src ns
  have two: "\<exists>r'. record_of (snd (snd (handle_agent_message 310 (Json (JObj heartbeat))
                                 (check_agent_health 301 seen_once)))) ''photo-agent'' = Some r'
          \<and> last_seen r' = Some 310 \<and> status r' \<noteq> ''online''"
    by blast
  show ?thesis using one two by (rule conjI)
qed

text \<open>
  C10. After \<^verbatim>\<open>_start_agent_monitoring\<close> has filled the empty registry, the \<^verbatim>\<open>errors\<close>
  counter of every record is 0, and it is still 0 after any run of consumed messages,
  health sweeps, statistics and dispatches.
\<close>

theorem errors_never_change:
  assumes "agents st0 = []" and "start_agent_monitoring st0 = (None, st)"
    and "record_of (run steps st) x = Some r"
  shows "errors r = 0"
proof -
  have "agents st = init_agents (expected_agents st0) []"
    using assms(1,2)
    by (auto simp add: start_agent_monitoring_def log_line_def Let_def split: if_splits)
  then have init: "record_of st x = (if x \<in> set (expected_agents st0) then Some fresh else None)"
    by (simp add: record_of_def map_of_init_agents)
  have "map_option errors (record_of st x) = Some (errors r)"
    using errors_run [of steps st x] assms(3) by simp
  then show ?thesis using init by (auto simp add: fresh_def split: if_splits)
qed

theorem errors_never_change_witness:
  "agents (snd (connect_to_rabbitmq 5 (init 0))) = [] \<and>
   fst (start_agent_monitoring (snd (connect_to_rabbitmq 5 (init 0)))) = None \<and>
   map_option errors
     (record_of (run [Deliver 1 (started_msg ''crm-agent''), Sweep 400, Stats 400, Deliver 401 NotJson]
                  (snd (start_agent_monitoring (snd (connect_to_rabbitmq 5 (init 0))))))
        ''crm-agent'') = Some 0"
proof -
  let ?conn = "snd (connect_to_rabbitmq 5 (init 0))"
  let ?st = "snd (start_agent_monitoring ?conn)"
  let ?steps = "[Deliver 1 (started_msg ''crm-agent''), Sweep 400, Stats 400, Deliver 401 NotJson]"
  have h1: "agents ?conn = []"
    by (simp add: connect_to_rabbitmq_def init_def log_line_def Let_def)
  have ok: "fst (start_agent_monitoring ?conn) = None"
    by (simp add: start_agent_monitoring_def connect_to_rabbitmq_def init_def log_line_def Let_def)
  then have h2: "start_agent_monitoring ?conn = (None, ?st)"
    by (simp add: prod_eq_iff)
  have "record_of ?st ''crm-agent'' = Some fresh"
    by (simp add: record_of_def start_agent_monitoring_def connect_to_rabbitmq_def init_def
        log_line_def Let_def fresh_def)
  then have "\<exists>r. record_of (run ?steps ?st) ''crm-agent'' = Some r"
    using errors_run [of ?steps ?st "''crm-agent''"]
    by (cases "record_of (run ?steps ?st) ''crm-agent''") (simp_all del: run.simps)
  then obtain r where r: "record_of (run ?steps ?st) ''crm-agent'' = Some r" by blast
  have "errors r = 0" using h1 h2 r by (rule errors_never_change)
  then have c3: "map_option errors (record_of (run ?steps ?st) ''crm-agent'') = Some 0"
    using r by simp
  show ?thesis using h1 ok c3 by blast
qed

section \<open>Agents, dispatch and shutdown\<close>

lemma handle_malformed:
  assumes "loads_decode b = Inl e"
  shows "handle_message pm b ag =
           (Ack, None,
            log_line ERROR (if e = JSONDecodeError then ''Erro ao decodificar mensagem JSON''
                            else ''Erro ao processar mensagem'') ag)"
  using assms by (simp add: handle_message_def message_try_def process_def)

lemma photo_task_request:
  assumes "is_task_request m"
  shows "handle_message (photo_process_message handlers) (Json m) ag =
           (Ack, None,
            log_line DEBUG ''Evento nao processado pelo PhotoAgent''
              (log_line DEBUG ''Processando evento''
                 ((log_line DEBUG ''Mensagem recebida'' ag)
                    \<lparr>invoked := invoked ag @ [Process_message m]\<rparr>)))"
proof -
  obtain kvs where m: "m = JObj kvs" and ev: "map_of kvs ''event_type'' = None"
    using assms by (auto simp add: is_task_request_def split: json.splits)
  show ?thesis
    by (simp add: m ev handle_message_def message_try_def process_def photo_process_message_def
        Let_def)
qed

lemma invoked_photo_agent: "invoked photo_agent = []"
  by (simp add: photo_agent_def agent_start_def agent_connect_to_rabbitmq_def
      start_consuming_def publish_message_def exchange_publish_def broker_call_def
      agent_init_def log_line_def Let_def)

lemma serialisable_lookup:
  "serialisable (PDict kvs) \<Longrightarrow> map_of kvs k = Some v \<Longrightarrow> serialisable v"
  by (induction kvs) (auto split: if_splits)

lemma send_task_to_agent_eq:
  assumes "channel st" "connection st = Some ConnOpen" "serialisable (PDict kvs)"
  shows "send_task_to_agent now agent (PDict kvs) st =
           (if publish_calls st \<in> faults st
            then log_line ERROR (''Erro ao enviar tarefa para '' @ agent)
                   (st\<lparr>publish_calls := Suc (publish_calls st)\<rparr>)
            else log_line DEBUG (''Tarefa enviada para '' @ agent)
                   (st\<lparr>publish_calls := Suc (publish_calls st),
                       direct := direct st @ [task_message now agent (PDict kvs)]\<rparr>))"
  using assms
  by (simp add: send_task_to_agent_def default_exchange_publish_def broker_call_def
      task_message_def Let_def)

lemma broker_start:
  "publish_calls (snd (start now 5 (init t0))) = 1"
  "direct (snd (start now 5 (init t0))) = []"
  by (simp_all add: start_def init_def connect_to_rabbitmq_def start_agent_monitoring_def
      log_line_def Let_def publish_system_event_def exchange_publish_def broker_call_def)

lemma env_second_send_fails:
  "channel second_send_fails" "connection second_send_fails = Some ConnOpen"
  "publish_calls second_send_fails = 1" "faults second_send_fails = {2}"
  "direct second_send_fails = []"
  by (simp_all add: second_send_fails_def connected_start broker_start)

lemma env_photo_agent:
  "exchange photo_agent" "connection photo_agent = Some ConnOpen" "faults photo_agent = {}"
  "closes photo_agent = 0" "agent_name photo_agent = ''photo-agent''"
  "map event_type (fanout photo_agent) = [''agent.started'']"
  by (simp_all add: photo_agent_def agent_start_def agent_connect_to_rabbitmq_def
      start_consuming_def publish_message_def exchange_publish_def broker_call_def
      agent_init_def log_line_def Let_def)

lemma agent_stop_connected:
  assumes "exchange ag" "connection ag = Some ConnOpen" "publish_calls ag \<notin> faults ag"
  shows "fst (agent_stop now ag) = None"
    and "connection (snd (agent_stop now ag)) = Some ConnClosed"
    and "exchange (snd (agent_stop now ag))"
    and "closes (snd (agent_stop now ag)) = Suc (closes ag)"
  using assms
  by (simp_all add: agent_stop_def publish_message_def exchange_publish_def broker_call_def
      log_line_def Let_def)

lemma agent_stop_closed:
  assumes "exchange ag" "connection ag \<noteq> Some ConnOpen"
  shows "fst (agent_stop now ag) = Some ChannelInvalidStateError"
    and "publish_calls (snd (agent_stop now ag)) = Suc (publish_calls ag)"
    and "closes (snd (agent_stop now ag)) = closes ag"
  using assms
  by (simp_all add: agent_stop_def publish_message_def exchange_publish_def broker_call_def
      log_line_def Let_def)

section \<open>The claims about agents, dispatch and shutdown\<close>

text \<open>
  C5. A body that does not decode (bytes that are not UTF-8, or text that is not JSON)
  makes \<^verbatim>\<open>_handle_message\<close> log one error line and end normally: no exception leaves
  the handler, \<^verbatim>\<open>process_message\<close> is not called, the message is acknowledged, the agent
  is otherwise unchanged, and the deliveries that follow are handled as usual.
\<close>

theorem malformed_message_dropped:
  assumes "loads_decode b = Inl e"
  shows "handle_message pm b ag
           = (Ack, None,
              log_line ERROR (if e = JSONDecodeError then ''Erro ao decodificar mensagem JSON''
                              else ''Erro ao processar mensagem'') ag) \<and>
         consume pm (b # bs) ag
           = (Ack # fst (consume pm bs (snd (snd (handle_message pm b ag)))),
              snd (consume pm bs (snd (snd (handle_message pm b ag)))))"
proof -
  have h: "handle_message pm b ag
             = (Ack, None,
                log_line ERROR (if e = JSONDecodeError then ''Erro ao decodificar mensagem JSON''
                                else ''Erro ao processar mensagem'') ag)"
    using assms by (rule handle_malformed)
  have "consume pm (b # bs) ag
          = (Ack # fst (consume pm bs (snd (snd (handle_message pm b ag)))),
             snd (consume pm bs (snd (snd (handle_message pm b ag)))))"
    by (simp add: h split: prod.split)
  with h show ?thesis by blast
qed

theorem malformed_message_dropped_witness:
  "loads_decode NotJson = Inl JSONDecodeError \<and>
   handle_message (photo_process_message (\<lambda>name d ag. (None, ag))) NotJson photo_agent
     = (Ack, None, log_line ERROR ''Erro ao decodificar mensagem JSON'' photo_agent) \<and>
   consume (photo_process_message (\<lambda>name d ag. (None, ag)))
       [NotJson, Json create_folder_request] photo_agent
     = (Ack # fst (consume (photo_process_message (\<lambda>name d ag. (None, ag)))
                     [Json create_folder_request]
                     (log_line ERROR ''Erro ao decodificar mensagem JSON'' photo_agent)),
        snd (consume (photo_process_message (\<lambda>name d ag. (None, ag)))
               [Json create_folder_request]
               (log_line ERROR ''Erro ao decodificar mensagem JSON'' photo_agent)))"
proof -
  let ?pm = "photo_process_message (\<lambda>name d ag. (None, ag))"
  have h: "loads_decode NotJson = Inl JSONDecodeError" by simp
  note inst = malformed_message_dropped [OF h, of ?pm photo_agent "[Json create_folder_request]"]
  from inst
  have a: "handle_message ?pm NotJson photo_agent
             = (Ack, None, log_line ERROR ''Erro ao decodificar mensagem JSON'' photo_agent)"
    by simp
  from inst
  have b: "consume ?pm [NotJson, Json create_folder_request] photo_agent
             = (Ack # fst (consume ?pm [Json create_folder_request]
                             (snd (snd (handle_message ?pm NotJson photo_agent)))),
                snd (consume ?pm [Json create_folder_request]
                       (snd (snd (handle_message ?pm NotJson photo_agent)))))"
    by (rule conjunct2)
  show ?thesis using h a b [unfolded a] by (simp del: consume.simps)
qed

text \<open>
  C2 as stated fails: the request that step 2 of the client onboarding sends to the
  photo agent reaches \<^verbatim>\<open>process_message\<close> only, and \<^verbatim>\<open>execute_task\<close> is not called with
  its task payload. The request has no \<^verbatim>\<open>event_type\<close>, so none of the private handlers
  runs, whatever they are.
\<close>

theorem task_request_not_executed:
  "is_task_request create_folder_request \<and>
   invoked (snd (snd (handle_message (photo_process_message (\<lambda>name d ag. (None, ag)))
                        (Json create_folder_request) photo_agent)))
     = [Process_message create_folder_request] \<and>
   Execute_task (JObj [(''type'', JStr ''create_client_folder''), (''client_name'', JStr ''Ana'')])
     \<notin> set (invoked (snd (snd (handle_message
                                   (photo_process_message (\<lambda>name d ag. (None, ag)))
                                   (Json create_folder_request) photo_agent))))"
proof -
  have h: "is_task_request create_folder_request"
    by (simp add: is_task_request_def create_folder_request_def)
  show ?thesis
    using h by (simp add: photo_task_request [OF h] log_line_def invoked_photo_agent)
qed

text \<open>
  C2, as the code has it. A decoded direct message of kind \<^verbatim>\<open>task_request\<close> is handed to
  \<^verbatim>\<open>process_message\<close> like every other message; the runtime calls \<^verbatim>\<open>execute_task\<close> on
  nothing it consumes. \<^verbatim>\<open>PhotoAgent.process_message\<close> finds no \<^verbatim>\<open>event_type\<close> in such a
  message and only logs it, whatever its private handlers do. The message is
  acknowledged and nothing is published.
\<close>

theorem task_request_goes_to_process_message:
  assumes "is_task_request m"
  shows "fst (handle_message (photo_process_message handlers) (Json m) ag) = Ack \<and>
         invoked (snd (snd (handle_message (photo_process_message handlers) (Json m) ag)))
           = invoked ag @ [Process_message m] \<and>
         fanout (snd (snd (handle_message (photo_process_message handlers) (Json m) ag)))
           = fanout ag \<and>
         direct (snd (snd (handle_message (photo_process_message handlers) (Json m) ag)))
           = direct ag \<and>
         publish_calls (snd (snd (handle_message (photo_process_message handlers) (Json m) ag)))
           = publish_calls ag"
  by (simp add: photo_task_request [OF assms] log_line_def)

theorem task_request_goes_to_process_message_witness:
  "is_task_request create_folder_request \<and>
   invoked (snd (snd (handle_message (photo_process_message (\<lambda>name d ag. (None, ag)))
                        (Json create_folder_request) photo_agent)))
     = invoked photo_agent @ [Process_message create_folder_request]"
proof -
  have h: "is_task_request create_folder_request"
    by (simp add: is_task_request_def create_folder_request_def)
  show ?thesis
    using h task_request_goes_to_process_message
              [OF h, of "\<lambda>name d ag. (None, ag)" photo_agent]
    by simp
qed

text \<open>
  C3 as stated fails: with the second publish call failing, the dispatcher still
  returns \<^verbatim>\<open>status = initiated\<close>, not \<^verbatim>\<open>error\<close>, after sending steps 1 and 3.
\<close>

theorem onboarding_failure_not_reported:
  "py_get (fst (execute_distributed_task 10 onboarding_ana second_send_fails)) ''status'' PNone
     = Inr (PStr ''initiated'') \<and>
   map fst (direct (snd (execute_distributed_task 10 onboarding_ana second_send_fails)))
     = [''crm-agent.queue'', ''calendar-agent.queue'']"
proof -
  have env: "channel second_send_fails" "connection second_send_fails = Some ConnOpen"
    by (simp_all add: env_second_send_fails)
  show ?thesis
    unfolding execute_distributed_task_def execute_client_onboarding_def Let_def
      onboarding_ana_def
    by (simp add: send_task_to_agent_eq env env_second_send_fails log_line_def task_message_def)
qed

text \<open>
  C3, as the code has it. On a connected orchestrator, dispatching \<^verbatim>\<open>client_onboarding\<close>
  with a serialisable \<^verbatim>\<open>client_data\<close> dictionary sends, in this order, one
  \<^verbatim>\<open>task_request\<close> from \<^verbatim>\<open>orchestrator\<close> to each of \<^verbatim>\<open>crm-agent\<close>, \<^verbatim>\<open>photo-agent\<close> and
  \<^verbatim>\<open>calendar-agent\<close>. When the second send fails, the first message stays sent, the
  failure is logged with the name of \<^verbatim>\<open>photo-agent\<close> only, the third message is still
  sent, and the result is \<^verbatim>\<open>status = initiated\<close> all the same. (The first and the third
  send are taken to succeed.)
\<close>

theorem onboarding_partial_delivery:
  assumes "channel st" and "connection st = Some ConnOpen"
    and "py_get task_data ''type'' (PStr '''') = Inr (PStr ''client_onboarding'')"
    and "py_get task_data ''client_data'' (PDict []) = Inr (PDict cd)"
    and "serialisable (PDict cd)"
    and "publish_calls st \<notin> faults st" and "Suc (Suc (publish_calls st)) \<notin> faults st"
  shows "fst (execute_distributed_task now task_data st)
           = PDict [(''status'', PStr ''initiated''),
                    (''message'', PStr ''Onboarding de cliente iniciado'')] \<and>
         direct (snd (execute_distributed_task now task_data st))
           = direct st @
             [task_message now ''crm-agent''
                (PDict [(''type'', PStr ''register_client''), (''client_data'', PDict cd)])] @
             (if Suc (publish_calls st) \<in> faults st then []
              else [task_message now ''photo-agent''
                      (PDict [(''type'', PStr ''create_client_folder''),
                              (''client_name'',
                               case map_of cd ''name'' of None \<Rightarrow> PStr '''' | Some v \<Rightarrow> v)])]) @
             [task_message now ''calendar-agent''
                (PDict [(''type'', PStr ''schedule_consultation''), (''client_data'', PDict cd)])] \<and>
         logged (snd (execute_distributed_task now task_data st))
           = logged st @
             [(INFO, ''Executando tarefa distribuida''),
              (DEBUG, ''Tarefa enviada para crm-agent''),
              (if Suc (publish_calls st) \<in> faults st
               then (ERROR, ''Erro ao enviar tarefa para photo-agent'')
               else (DEBUG, ''Tarefa enviada para photo-agent'')),
              (DEBUG, ''Tarefa enviada para calendar-agent'')]"
proof -
  let ?name = "case map_of cd ''name'' of None \<Rightarrow> PStr '''' | Some v \<Rightarrow> v"
    have sname: "serialisable ?name"
    using assms(5) serialisable_lookup [of cd "''name''"] by (auto split: option.split)
  have s1: "serialisable (PDict [(''type'', PStr ''register_client''), (''client_data'', PDict cd)])"
    using assms(5) by simp
  have s2: "serialisable (PDict [(''type'', PStr ''create_client_folder''), (''client_name'', ?name)])"
    using sname by simp
  have s3: "serialisable (PDict [(''type'', PStr ''schedule_consultation''), (''client_data'', PDict cd)])"
    using assms(5) by simp
  have name: "py_get (PDict cd) ''name'' (PStr '''') = Inr ?name" by simp
  show ?thesis
    using assms(6,7)
    unfolding execute_distributed_task_def execute_client_onboarding_def Let_def
      assms(3) assms(4) name sum.case
    by (simp add: send_task_to_agent_eq assms(1,2) s1 s2 s3 log_line_def del: serialisable.simps)
qed

theorem onboarding_partial_delivery_witness:
  "fst (execute_distributed_task 10 onboarding_ana second_send_fails)
     = PDict [(''status'', PStr ''initiated''),
              (''message'', PStr ''Onboarding de cliente iniciado'')] \<and>
   direct (snd (execute_distributed_task 10 onboarding_ana second_send_fails))
     = [task_message 10 ''crm-agent''
          (PDict [(''type'', PStr ''register_client''),
                  (''client_data'', PDict [(''name'', PStr ''Ana'')])]),
        task_message 10 ''calendar-agent''
          (PDict [(''type'', PStr ''schedule_consultation''),
                  (''client_data'', PDict [(''name'', PStr ''Ana'')])])]"
proof -
  have h3: "py_get onboarding_ana ''type'' (PStr '''') = Inr (PStr ''client_onboarding'')"
    by (simp add: onboarding_ana_def)
  have h4: "py_get onboarding_ana ''client_data'' (PDict [])
              = Inr (PDict [(''name'', PStr ''Ana'')])"
    by (simp add: onboarding_ana_def)
  have h5: "serialisable (PDict [(''name'', PStr ''Ana'')])" by simp
  have h6: "publish_calls second_send_fails \<notin> faults second_send_fails"
    by (simp add: env_second_send_fails)
  have h7: "Suc (Suc (publish_calls second_send_fails)) \<notin> faults second_send_fails"
    by (simp add: env_second_send_fails)
  show ?thesis
    using onboarding_partial_delivery [OF env_second_send_fails(1,2) h3 h4 h5 h6 h7, of 10]
    by (simp add: env_second_send_fails)
qed

text \<open>
  C9. Calling \<^verbatim>\<open>stop\<close> twice should have the effect of calling it once, with no error
  from the second call. \<^verbatim>\<open>BaseAgent.stop\<close> does not behave so on a started agent: the
  first call announces \<^verbatim>\<open>agent.stopped\<close> and closes the connection; the second call
  skips the close, which is guarded by \<^verbatim>\<open>not self.connection.is_closed\<close>, but
  \<^verbatim>\<open>self.exchange\<close> is still set, so it publishes the announcement again, on the closed
  connection, and the \<^verbatim>\<open>ChannelInvalidStateError\<close> of that publish leaves \<^verbatim>\<open>stop\<close>.
\<close>

theorem second_stop_raises:
  "fst (agent_stop 100 photo_agent) = None \<and>
   connection (snd (agent_stop 100 photo_agent)) = Some ConnClosed \<and>
   closes (snd (agent_stop 100 photo_agent)) = 1 \<and>
   fst (agent_stop 101 (snd (agent_stop 100 photo_agent))) = Some ChannelInvalidStateError \<and>
   publish_calls (snd (agent_stop 101 (snd (agent_stop 100 photo_agent))))
     = Suc (publish_calls (snd (agent_stop 100 photo_agent))) \<and>
   closes (snd (agent_stop 101 (snd (agent_stop 100 photo_agent)))) = 1"
proof -
  have ok: "publish_calls photo_agent \<notin> faults photo_agent" by (simp add: env_photo_agent)
  note first = agent_stop_connected [OF env_photo_agent(1,2) ok, of 100]
  have closed: "connection (snd (agent_stop 100 photo_agent)) \<noteq> Some ConnOpen"
    by (simp add: first)
  note second = agent_stop_closed [OF first(3) closed, of 101]
  show ?thesis using first second by (simp add: env_photo_agent)
qed

end
